theory Spec2Isabelle
  imports Complex_Main "HOL-Library.State_Monad"
begin


section \<open>The pseudo-random generator\<close>

text \<open>
  \<^verbatim>\<open>generate_test_data.py\<close> draws every value from Python's process-global generator,
  seeded once by \<^verbatim>\<open>random.seed(42)\<close>. The generator itself (the Mersenne Twister of the
  standard library) is not part of the repository, so it is a parameter of the model: a
  state type \<open>'g\<close> with the two primitives every call of the script bottoms out in,
  \<^verbatim>\<open>random()\<close> (a float in [0, 1)) and \<^verbatim>\<open>_randbelow(n)\<close> (an int in [0, n)).
  The global generator state is threaded through the whole script by a state monad, so the
  order in which the script draws is the order of the binds below.

  Python floats are modelled as exact reals: \<^verbatim>\<open>round(x, 2)\<close> is rounding to the nearest
  multiple of 1/100, ties to even, and the binary rounding error of float arithmetic is
  not modelled.
\<close>

record 'g rng =
  rnd_seed :: "int \<Rightarrow> 'g"
  rnd_random :: "'g \<Rightarrow> real \<times> 'g"
  rnd_randbelow :: "nat \<Rightarrow> 'g \<Rightarrow> nat \<times> 'g"

definition wf_rng :: "'g rng \<Rightarrow> bool" where
  "wf_rng R \<longleftrightarrow>
     (\<forall>g. 0 \<le> fst (rnd_random R g) \<and> fst (rnd_random R g) < 1) \<and>
     (\<forall>n g. 0 < n \<longrightarrow> fst (rnd_randbelow R n g) < n)"

definition random_random :: "'g rng \<Rightarrow> ('g, real) state" where
  "random_random R = State (rnd_random R)"

definition random_randbelow :: "'g rng \<Rightarrow> nat \<Rightarrow> ('g, nat) state" where
  "random_randbelow R n = State (rnd_randbelow R n)"

text \<open>\<^verbatim>\<open>uniform(a, b)\<close> is \<^verbatim>\<open>a + (b - a) * random()\<close>.\<close>

definition random_uniform :: "'g rng \<Rightarrow> real \<Rightarrow> real \<Rightarrow> ('g, real) state" where
  "random_uniform R a b = do {
     u \<leftarrow> random_random R;
     State_Monad.return (a + (b - a) * u)
   }"

text \<open>
  \<^verbatim>\<open>randint(a, b)\<close> is \<^verbatim>\<open>a + _randbelow(b - a + 1)\<close>; Python raises ValueError when
  \<open>b < a\<close>, which no call of the script reaches (every range is non-empty).
\<close>

definition random_randint :: "'g rng \<Rightarrow> int \<Rightarrow> int \<Rightarrow> ('g, int) state" where
  "random_randint R a b = do {
     k \<leftarrow> random_randbelow R (nat (b - a + 1));
     State_Monad.return (a + int k)
   }"

text \<open>
  \<^verbatim>\<open>choice(seq)\<close> is \<^verbatim>\<open>seq[_randbelow(len(seq))]\<close>; every sequence the script chooses
  from is a non-empty literal.
\<close>

definition random_choice :: "'g rng \<Rightarrow> 'a list \<Rightarrow> ('g, 'a) state" where
  "random_choice R seq = do {
     k \<leftarrow> random_randbelow R (length seq);
     State_Monad.return (seq ! k)
   }"

section \<open>Numbers, strings and dates\<close>

definition round_half_even :: "real \<Rightarrow> int" where
  "round_half_even x =
     (let f = \<lfloor>x\<rfloor>; d = x - of_int f
      in if d < 1 / 2 then f else if 1 / 2 < d then f + 1 else if even f then f else f + 1)"

definition py_round :: "real \<Rightarrow> nat \<Rightarrow> real" where
  "py_round x ndigits = of_int (round_half_even (x * 10 ^ ndigits)) / 10 ^ ndigits"

text \<open>
  \<^verbatim>\<open>int(x)\<close> truncates towards zero. A float division by a variable raises
  ZeroDivisionError on a zero divisor; the script guards most of its divisions by a
  conditional expression, and the unguarded ones return the error as a value here.
\<close>

definition py_int :: "real \<Rightarrow> int" where
  "py_int x = (if 0 \<le> x then \<lfloor>x\<rfloor> else \<lceil>x\<rceil>)"

datatype error = ZeroDivisionError

definition py_truediv :: "real \<Rightarrow> real \<Rightarrow> error + real" where
  "py_truediv x y = (if y = 0 then Inl ZeroDivisionError else Inr (x / y))"

fun digits :: "nat \<Rightarrow> nat list" where
  "digits n = (if n < 10 then [n] else digits (n div 10) @ [n mod 10])"

declare digits.simps [simp del]

definition str_nat :: "nat \<Rightarrow> string" where
  "str_nat n = map (\<lambda>d. ''0123456789'' ! d) (digits n)"

definition str_int :: "int \<Rightarrow> string" where
  "str_int i = (if i < 0 then CHR ''-'' # str_nat (nat (- i)) else str_nat (nat i))"

text \<open>The format \<^verbatim>\<open>{i:05d}\<close> and the fields of \<^verbatim>\<open>strftime\<close>: zero-padding to a width.\<close>

definition zero_pad :: "nat \<Rightarrow> string \<Rightarrow> string" where
  "zero_pad w s = replicate (w - length s) (CHR ''0'') @ s"

definition char_lower :: "char \<Rightarrow> char" where
  "char_lower c =
     (case map_of (zip ''ABCDEFGHIJKLMNOPQRSTUVWXYZ'' ''abcdefghijklmnopqrstuvwxyz'') c of
        Some l \<Rightarrow> l
      | None \<Rightarrow> c)"

definition str_lower :: "string \<Rightarrow> string" where
  "str_lower s = map char_lower s"

text \<open>
  \<^verbatim>\<open>datetime.date\<close>, with the proleptic Gregorian ordinal arithmetic of the standard
  library behind \<^verbatim>\<open>end - start\<close> and \<^verbatim>\<open>start + timedelta(days=n)\<close>. A timedelta is its
  number of days.
\<close>

record date =
  year :: int
  month :: int
  day :: int

definition is_leap :: "int \<Rightarrow> bool" where
  "is_leap y \<longleftrightarrow> y mod 4 = 0 \<and> (y mod 100 \<noteq> 0 \<or> y mod 400 = 0)"

definition days_before_year :: "int \<Rightarrow> int" where
  "days_before_year yr = (let y = yr - 1 in y * 365 + y div 4 - y div 100 + y div 400)"

definition DAYS_IN_MONTH :: "int list" where
  "DAYS_IN_MONTH = [-1, 31, 28, 31, 30, 31, 30, 31, 31, 30, 31, 30, 31]"

definition DAYS_BEFORE_MONTH :: "int list" where
  "DAYS_BEFORE_MONTH = [-1, 0, 31, 59, 90, 120, 151, 181, 212, 243, 273, 304, 334]"

definition days_before_month :: "int \<Rightarrow> int \<Rightarrow> int" where
  "days_before_month yr m =
     DAYS_BEFORE_MONTH ! nat m + (if 2 < m \<and> is_leap yr then 1 else 0)"

definition toordinal :: "date \<Rightarrow> int" where
  "toordinal d = days_before_year (year d) + days_before_month (year d) (month d) + day d"

definition fromordinal :: "int \<Rightarrow> date" where
  "fromordinal n0 =
     (let n = n0 - 1;
          n400 = n div 146097; n = n mod 146097;
          n100 = n div 36524; n = n mod 36524;
          n4 = n div 1461; n = n mod 1461;
          n1 = n div 365; n = n mod 365;
          yr = n400 * 400 + 1 + n100 * 100 + n4 * 4 + n1
      in if n1 = 4 \<or> n100 = 4 then \<lparr>year = yr - 1, month = 12, day = 31\<rparr>
         else
           let leapyear = (n1 = 3 \<and> (n4 \<noteq> 24 \<or> n100 = 3));
               m = (n + 50) div 32;
               preceding = DAYS_BEFORE_MONTH ! nat m + (if 2 < m \<and> leapyear then 1 else 0);
               (m, preceding) =
                 (if n < preceding
                  then (m - 1,
                        preceding -
                          (DAYS_IN_MONTH ! nat (m - 1) + (if m - 1 = 2 \<and> leapyear then 1 else 0)))
                  else (m, preceding))
           in \<lparr>year = yr, month = m, day = n - preceding + 1\<rparr>)"

definition date_sub_days :: "date \<Rightarrow> date \<Rightarrow> int" where
  "date_sub_days end_date start_date = toordinal end_date - toordinal start_date"

definition date_add_days :: "date \<Rightarrow> int \<Rightarrow> date" where
  "date_add_days d n = fromordinal (toordinal d + n)"

definition strftime_ymd :: "date \<Rightarrow> string" where
  "strftime_ymd d =
     zero_pad 4 (str_int (year d)) @ ''-'' @ zero_pad 2 (str_int (month d)) @ ''-'' @
     zero_pad 2 (str_int (day d))"

section \<open>Cells and the two helpers of the script\<close>

text \<open>
  A row handed to \<^verbatim>\<open>csv.writer.writerow\<close> is a list of Python values; a cell keeps the
  value and its type. The csv module writes \<^verbatim>\<open>None\<close> as the empty string, so the cells
  that reach the file empty are \<open>CStr ''''\<close> and \<open>CNone\<close>.
\<close>

datatype cell = CInt int | CFloat real | CStr string | CBool bool | CNone

definition cell_empty :: "cell \<Rightarrow> bool" where
  "cell_empty c \<longleftrightarrow> c = CStr [] \<or> c = CNone"

definition random_date :: "'g rng \<Rightarrow> date \<Rightarrow> date \<Rightarrow> ('g, date) state" where
  "random_date R start_date end_date = do {
     let delta = date_sub_days end_date start_date;
     random_days \<leftarrow> random_randint R 0 delta;
     State_Monad.return (date_add_days start_date random_days)
   }"

definition add_missing_values :: "'g rng \<Rightarrow> cell \<Rightarrow> real \<Rightarrow> ('g, cell) state" where
  "add_missing_values R v missing_rate = do {
     u \<leftarrow> random_random R;
     State_Monad.return (if u < missing_rate then CStr [] else v)
   }"

section \<open>File 1: sales transactions\<close>

definition categories :: "string list" where
  "categories = [''Electronics'', ''Clothing'', ''Furniture'', ''Food'', ''Books'', ''Sports'',
     ''Toys'', ''Beauty'', ''Home'', ''Garden'']"

definition regions :: "string list" where
  "regions = [''North'', ''South'', ''East'', ''West'', ''Central'']"

definition statuses :: "string list" where
  "statuses = [''Delivered'', ''Shipped'', ''Pending'', ''Cancelled'', ''Returned'']"

definition payment_methods :: "string list" where
  "payment_methods = [''Credit Card'', ''Debit Card'', ''PayPal'', ''Cash'', ''Bank Transfer'']"

definition customer_segments :: "string list" where
  "customer_segments = [''Premium'', ''Standard'', ''Basic'', ''VIP'']"

definition sales_header :: "cell list" where
  "sales_header = map CStr
     [''transaction_id'', ''date'', ''customer_id'', ''product_id'', ''category'',
      ''region'', ''sales_amount'', ''quantity'', ''discount_percent'', ''tax_amount'',
      ''shipping_cost'', ''total_amount'', ''status'', ''payment_method'', ''customer_segment'',
      ''delivery_days'', ''rating'', ''is_repeat_customer'', ''promotion_applied'', ''season'',
      ''year'', ''month'']"

definition season_of :: "int \<Rightarrow> string" where
  "season_of m =
     (if m \<in> set [12, 1, 2] then ''Winter''
      else if m \<in> set [3, 4, 5] then ''Spring''
      else if m \<in> set [6, 7, 8] then ''Summer''
      else ''Fall'')"

text \<open>
  One iteration of the loop \<^verbatim>\<open>for i in range(1, 25001)\<close>, statement by statement, and
  the list handed to \<^verbatim>\<open>writerow\<close>, built left to right. The test
  \<^verbatim>\<open>random.random() < 0.02 and i > 100\<close> draws before it looks at \<open>i\<close>. The
  argument of each \<^verbatim>\<open>add_missing_values\<close> is evaluated (and drawn, for the fields
  sampled in place) before the corruption draw of that cell.
\<close>

definition sales_row :: "'g rng \<Rightarrow> nat \<Rightarrow> ('g, cell list) state" where
  "sales_row R i = do {
     dt \<leftarrow> random_date R \<lparr>year = 2020, month = 1, day = 1\<rparr> \<lparr>year = 2024, month = 12, day = 31\<rparr>;
     u \<leftarrow> random_uniform R 10 5000;
     let sales_amount = py_round u 2;
     quantity \<leftarrow> random_randint R 1 20;
     discount \<leftarrow> random_choice R [0, 5, 10, 15, 20, 25, 30];
     let tax = py_round (sales_amount * (8 / 100)) 2;
     u \<leftarrow> random_uniform R 0 50;
     let shipping = py_round u 2;
     let total = py_round (sales_amount - (sales_amount * of_int discount / 100) + tax + shipping) 2;
     p \<leftarrow> random_random R;
     transaction_id \<leftarrow>
       (if p < 2 / 100 \<and> 100 < i then random_randint R 1 (int i - 1)
        else State_Monad.return (int i));
     p \<leftarrow> random_random R;
     (sales_amount, total) \<leftarrow>
       (if p < 1 / 100 then do {
          u \<leftarrow> random_uniform R 10000 50000;
          let sales_amount = py_round u 2;
          let total =
            py_round (sales_amount - (sales_amount * of_int discount / 100) + tax + shipping) 2;
          State_Monad.return (sales_amount, total)
        } else State_Monad.return (sales_amount, total));
     let season = season_of (month dt);
     c1 \<leftarrow> add_missing_values R (CInt transaction_id) (1 / 1000);
     c2 \<leftarrow> add_missing_values R (CStr (strftime_ymd dt)) (2 / 100);
     customer_id \<leftarrow> random_randint R 1 5000;
     c3 \<leftarrow> add_missing_values R (CInt customer_id) (3 / 100);
     product_id \<leftarrow> random_randint R 1000 9999;
     c4 \<leftarrow> add_missing_values R (CInt product_id) (2 / 100);
     category \<leftarrow> random_choice R categories;
     c5 \<leftarrow> add_missing_values R (CStr category) (1 / 100);
     region \<leftarrow> random_choice R regions;
     c6 \<leftarrow> add_missing_values R (CStr region) (1 / 100);
     c7 \<leftarrow> add_missing_values R (CFloat sales_amount) (5 / 100);
     c8 \<leftarrow> add_missing_values R (CInt quantity) (3 / 100);
     c9 \<leftarrow> add_missing_values R (CInt discount) (2 / 100);
     c10 \<leftarrow> add_missing_values R (CFloat tax) (4 / 100);
     c11 \<leftarrow> add_missing_values R (CFloat shipping) (3 / 100);
     c12 \<leftarrow> add_missing_values R (CFloat total) (5 / 100);
     status \<leftarrow> random_choice R statuses;
     c13 \<leftarrow> add_missing_values R (CStr status) (2 / 100);
     payment_method \<leftarrow> random_choice R payment_methods;
     c14 \<leftarrow> add_missing_values R (CStr payment_method) (1 / 100);
     customer_segment \<leftarrow> random_choice R customer_segments;
     c15 \<leftarrow> add_missing_values R (CStr customer_segment) (3 / 100);
     delivery_days \<leftarrow> random_randint R 1 30;
     c16 \<leftarrow> add_missing_values R (CInt delivery_days) (4 / 100);
     rating \<leftarrow> random_randint R 1 5;
     c17 \<leftarrow> add_missing_values R (CInt rating) (10 / 100);
     is_repeat_customer \<leftarrow> random_choice R [True, False];
     c18 \<leftarrow> add_missing_values R (CBool is_repeat_customer) (2 / 100);
     promotion_applied \<leftarrow> random_choice R [True, False];
     c19 \<leftarrow> add_missing_values R (CBool promotion_applied) (1 / 100);
     c20 \<leftarrow> add_missing_values R (CStr season) (1 / 100);
     c21 \<leftarrow> add_missing_values R (CInt (year dt)) (1 / 100);
     c22 \<leftarrow> add_missing_values R (CInt (month dt)) (1 / 100);
     State_Monad.return
       [c1, c2, c3, c4, c5, c6, c7, c8, c9, c10, c11, c12, c13, c14, c15, c16, c17, c18, c19,
        c20, c21, c22]
   }"

text \<open>The file: the header row, then the rows of the loop in order.\<close>

definition sales_file :: "'g rng \<Rightarrow> ('g, cell list list) state" where
  "sales_file R = do {
     rows \<leftarrow> traverse_list (sales_row R) [1..<25001];
     State_Monad.return (sales_header # rows)
   }"

section \<open>File 2: customers\<close>

definition countries :: "string list" where
  "countries = [''USA'', ''Canada'', ''UK'', ''Germany'', ''France'', ''Australia'', ''Japan'',
     ''Brazil'', ''India'', ''China'']"

definition genders :: "string list" where
  "genders = [''Male'', ''Female'', ''Other'', ''Prefer not to say'']"

definition subscription_types :: "string list" where
  "subscription_types = [''Free'', ''Basic'', ''Premium'', ''Enterprise'']"

definition account_statuses :: "string list" where
  "account_statuses = [''Active'', ''Inactive'', ''Suspended'', ''Pending'']"

definition first_names :: "string list" where
  "first_names = [''John'', ''Emma'', ''Michael'', ''Sophia'', ''William'', ''Olivia'', ''James'',
     ''Ava'', ''Robert'', ''Isabella'']"

definition last_names :: "string list" where
  "last_names = [''Smith'', ''Johnson'', ''Williams'', ''Brown'', ''Jones'', ''Garcia'', ''Miller'',
     ''Davis'', ''Rodriguez'', ''Martinez'']"

definition customer_header :: "cell list" where
  "customer_header = map CStr
     [''customer_id'', ''first_name'', ''last_name'', ''email'', ''phone'',
      ''country'', ''city'', ''age'', ''gender'', ''signup_date'',
      ''subscription_type'', ''account_status'', ''lifetime_value'', ''total_orders'',
      ''average_order_value'', ''last_purchase_date'', ''loyalty_points'', ''is_verified'',
      ''email_opt_in'', ''sms_opt_in'', ''referral_count'']"

text \<open>
  The conditional expression of \<^verbatim>\<open>last_purchase\<close> draws its test first and samples the
  date only when the test holds; \<^verbatim>\<open>None\<close> is \<open>None\<close>.
\<close>

definition customer_row :: "'g rng \<Rightarrow> nat \<Rightarrow> ('g, cell list) state" where
  "customer_row R i = do {
     signup \<leftarrow> random_date R \<lparr>year = 2018, month = 1, day = 1\<rparr> \<lparr>year = 2024, month = 12, day = 31\<rparr>;
     p \<leftarrow> random_random R;
     last_purchase \<leftarrow>
       (if 1 / 10 < p then do {
          d \<leftarrow> random_date R signup \<lparr>year = 2024, month = 12, day = 31\<rparr>;
          State_Monad.return (Some d)
        } else State_Monad.return None);
     total_orders \<leftarrow> random_randint R 0 200;
     u \<leftarrow> random_uniform R 20 500;
     let avg_order = py_round u 2;
     let lifetime_value = py_round (of_int total_orders * avg_order) 2;
     p \<leftarrow> random_random R;
     lifetime_value \<leftarrow>
       (if p < 1 / 100 then do {
          u \<leftarrow> random_uniform R 50000 200000;
          State_Monad.return (py_round u 2)
        } else State_Monad.return lifetime_value);
     c1 \<leftarrow> add_missing_values R (CInt (int i)) (1 / 1000);
     first_name \<leftarrow> random_choice R first_names;
     c2 \<leftarrow> add_missing_values R (CStr first_name) (2 / 100);
     last_name \<leftarrow> random_choice R last_names;
     c3 \<leftarrow> add_missing_values R (CStr last_name) (2 / 100);
     email_first \<leftarrow> random_choice R first_names;
     email_last \<leftarrow> random_choice R last_names;
     c4 \<leftarrow> add_missing_values R
       (CStr (str_lower email_first @ ''.'' @ str_lower email_last @ ''@example.com'')) (3 / 100);
     phone1 \<leftarrow> random_randint R 200 999;
     phone2 \<leftarrow> random_randint R 100 999;
     phone3 \<leftarrow> random_randint R 1000 9999;
     c5 \<leftarrow> add_missing_values R
       (CStr (''+1-'' @ str_int phone1 @ ''-'' @ str_int phone2 @ ''-'' @ str_int phone3)) (8 / 100);
     country \<leftarrow> random_choice R countries;
     c6 \<leftarrow> add_missing_values R (CStr country) (2 / 100);
     city \<leftarrow> random_randint R 1 100;
     c7 \<leftarrow> add_missing_values R (CStr (''City_'' @ str_int city)) (3 / 100);
     age \<leftarrow> random_randint R 18 80;
     c8 \<leftarrow> add_missing_values R (CInt age) (5 / 100);
     gender \<leftarrow> random_choice R genders;
     c9 \<leftarrow> add_missing_values R (CStr gender) (6 / 100);
     c10 \<leftarrow> add_missing_values R (CStr (strftime_ymd signup)) (1 / 100);
     subscription_type \<leftarrow> random_choice R subscription_types;
     c11 \<leftarrow> add_missing_values R (CStr subscription_type) (2 / 100);
     account_status \<leftarrow> random_choice R account_statuses;
     c12 \<leftarrow> add_missing_values R (CStr account_status) (1 / 100);
     c13 \<leftarrow> add_missing_values R (CFloat lifetime_value) (4 / 100);
     c14 \<leftarrow> add_missing_values R (CInt total_orders) (3 / 100);
     c15 \<leftarrow> add_missing_values R (CFloat avg_order) (4 / 100);
     c16 \<leftarrow> add_missing_values R
       (case last_purchase of Some d \<Rightarrow> CStr (strftime_ymd d) | None \<Rightarrow> CStr []) (15 / 100);
     loyalty_points \<leftarrow> random_randint R 0 10000;
     c17 \<leftarrow> add_missing_values R (CInt loyalty_points) (5 / 100);
     is_verified \<leftarrow> random_choice R [True, False];
     c18 \<leftarrow> add_missing_values R (CBool is_verified) (2 / 100);
     email_opt_in \<leftarrow> random_choice R [True, False];
     c19 \<leftarrow> add_missing_values R (CBool email_opt_in) (3 / 100);
     sms_opt_in \<leftarrow> random_choice R [True, False];
     c20 \<leftarrow> add_missing_values R (CBool sms_opt_in) (4 / 100);
     referral_count \<leftarrow> random_randint R 0 50;
     c21 \<leftarrow> add_missing_values R (CInt referral_count) (5 / 100);
     State_Monad.return
       [c1, c2, c3, c4, c5, c6, c7, c8, c9, c10, c11, c12, c13, c14, c15, c16, c17, c18, c19,
        c20, c21]
   }"

definition customer_file :: "'g rng \<Rightarrow> ('g, cell list list) state" where
  "customer_file R = do {
     rows \<leftarrow> traverse_list (customer_row R) [1..<25001];
     State_Monad.return (customer_header # rows)
   }"

section \<open>File 3: product catalog\<close>

definition brands :: "string list" where
  "brands = [''BrandA'', ''BrandB'', ''BrandC'', ''BrandD'', ''BrandE'', ''BrandF'', ''BrandG'',
     ''BrandH'']"

definition suppliers :: "string list" where
  "suppliers = [''Supplier1'', ''Supplier2'', ''Supplier3'', ''Supplier4'', ''Supplier5'']"

definition warehouses :: "string list" where
  "warehouses = [''WH-North'', ''WH-South'', ''WH-East'', ''WH-West'', ''WH-Central'']"

definition product_statuses :: "string list" where
  "product_statuses = [''Active'', ''Discontinued'', ''Out of Stock'', ''Limited Stock'']"

definition colors :: "string list" where
  "colors = [''Red'', ''Blue'', ''Green'', ''Black'', ''White'', ''Silver'', ''Gold'', ''Pink'',
     ''Purple'', ''Orange'']"

definition sizes :: "string list" where
  "sizes = [''XS'', ''S'', ''M'', ''L'', ''XL'', ''XXL'', ''One Size'']"

definition materials :: "string list" where
  "materials = [''Cotton'', ''Plastic'', ''Metal'', ''Wood'', ''Glass'', ''Leather'', ''Synthetic'',
     ''Mixed'']"

definition subcategories :: "(string \<times> string list) list" where
  "subcategories =
     [(''Electronics'', [''Phones'', ''Laptops'', ''Tablets'', ''Cameras'']),
      (''Clothing'', [''Shirts'', ''Pants'', ''Dresses'', ''Shoes'']),
      (''Furniture'', [''Chairs'', ''Tables'', ''Sofas'', ''Beds'']),
      (''Food'', [''Snacks'', ''Beverages'', ''Frozen'', ''Fresh'']),
      (''Books'', [''Fiction'', ''Non-Fiction'', ''Educational'', ''Comics''])]"

text \<open>\<^verbatim>\<open>d.get(key, default)\<close>.\<close>

definition dict_get :: "('k \<times> 'v) list \<Rightarrow> 'k \<Rightarrow> 'v \<Rightarrow> 'v" where
  "dict_get d k dflt = (case map_of d k of Some v \<Rightarrow> v | None \<Rightarrow> dflt)"

definition product_header :: "cell list" where
  "product_header = map CStr
     [''product_id'', ''product_name'', ''category'', ''subcategory'', ''brand'',
      ''supplier'', ''cost_price'', ''selling_price'', ''profit_margin'', ''stock_quantity'',
      ''reorder_level'', ''warehouse_location'', ''weight_kg'', ''dimensions_cm'',
      ''color'', ''size'', ''material'', ''rating_average'', ''review_count'',
      ''launch_date'', ''status'', ''is_featured'', ''warranty_months'']"

text \<open>
  \<^verbatim>\<open>round(((selling - cost) / selling) * 100, 2)\<close>: the one division of the product
  loop, written twice in the script and guarded by nothing.
\<close>

definition profit_margin :: "real \<Rightarrow> real \<Rightarrow> error + real" where
  "profit_margin selling cost =
     (case py_truediv (selling - cost) selling of
        Inl e \<Rightarrow> Inl e
      | Inr q \<Rightarrow> Inr (py_round (q * 100) 2))"

text \<open>
  One iteration of \<^verbatim>\<open>for i in range(1000, 26000)\<close>. An exception leaves the iteration
  (and the script) at the statement that raises it.
\<close>

definition product_row :: "'g rng \<Rightarrow> nat \<Rightarrow> ('g, error + cell list) state" where
  "product_row R i = do {
     category \<leftarrow> random_choice R categories;
     let subcategory_list = dict_get subcategories category [''General''];
     u \<leftarrow> random_uniform R 5 500;
     let cost = py_round u 2;
     u \<leftarrow> random_uniform R (12 / 10) 3;
     let selling = py_round (cost * u) 2;
     case profit_margin selling cost of
       Inl e \<Rightarrow> State_Monad.return (Inl e)
     | Inr margin \<Rightarrow> do {
         p \<leftarrow> random_random R;
         outlier \<leftarrow>
           (if p < 1 / 100 then do {
              u \<leftarrow> random_uniform R 5000 20000;
              let selling = py_round u 2;
              State_Monad.return
                (case profit_margin selling cost of
                   Inl e \<Rightarrow> Inl e
                 | Inr margin \<Rightarrow> Inr (selling, margin))
            } else State_Monad.return (Inr (selling, margin)));
         case outlier of
           Inl e \<Rightarrow> State_Monad.return (Inl e)
         | Inr (selling, margin) \<Rightarrow> do {
             launch \<leftarrow> random_date R \<lparr>year = 2015, month = 1, day = 1\<rparr>
               \<lparr>year = 2024, month = 12, day = 31\<rparr>;
             c1 \<leftarrow> add_missing_values R (CInt (int i)) (1 / 1000);
             c2 \<leftarrow> add_missing_values R
               (CStr (''Product_'' @ category @ ''_'' @ str_int (int i))) (2 / 100);
             c3 \<leftarrow> add_missing_values R (CStr category) (1 / 100);
             subcategory \<leftarrow> random_choice R subcategory_list;
             c4 \<leftarrow> add_missing_values R (CStr subcategory) (2 / 100);
             brand \<leftarrow> random_choice R brands;
             c5 \<leftarrow> add_missing_values R (CStr brand) (2 / 100);
             supplier \<leftarrow> random_choice R suppliers;
             c6 \<leftarrow> add_missing_values R (CStr supplier) (3 / 100);
             c7 \<leftarrow> add_missing_values R (CFloat cost) (4 / 100);
             c8 \<leftarrow> add_missing_values R (CFloat selling) (4 / 100);
             c9 \<leftarrow> add_missing_values R (CFloat margin) (5 / 100);
             stock_quantity \<leftarrow> random_randint R 0 1000;
             c10 \<leftarrow> add_missing_values R (CInt stock_quantity) (3 / 100);
             reorder_level \<leftarrow> random_randint R 10 100;
             c11 \<leftarrow> add_missing_values R (CInt reorder_level) (4 / 100);
             warehouse \<leftarrow> random_choice R warehouses;
             c12 \<leftarrow> add_missing_values R (CStr warehouse) (3 / 100);
             u \<leftarrow> random_uniform R (1 / 10) 50;
             c13 \<leftarrow> add_missing_values R (CFloat (py_round u 2)) (5 / 100);
             dim1 \<leftarrow> random_randint R 5 100;
             dim2 \<leftarrow> random_randint R 5 100;
             dim3 \<leftarrow> random_randint R 5 100;
             c14 \<leftarrow> add_missing_values R
               (CStr (str_int dim1 @ ''x'' @ str_int dim2 @ ''x'' @ str_int dim3)) (6 / 100);
             color \<leftarrow> random_choice R colors;
             c15 \<leftarrow> add_missing_values R (CStr color) (5 / 100);
             sz \<leftarrow> random_choice R sizes;
             c16 \<leftarrow> add_missing_values R (CStr sz) (7 / 100);
             material \<leftarrow> random_choice R materials;
             c17 \<leftarrow> add_missing_values R (CStr material) (4 / 100);
             u \<leftarrow> random_uniform R 1 5;
             c18 \<leftarrow> add_missing_values R (CFloat (py_round u 1)) (8 / 100);
             review_count \<leftarrow> random_randint R 0 5000;
             c19 \<leftarrow> add_missing_values R (CInt review_count) (7 / 100);
             c20 \<leftarrow> add_missing_values R (CStr (strftime_ymd launch)) (3 / 100);
             status \<leftarrow> random_choice R product_statuses;
             c21 \<leftarrow> add_missing_values R (CStr status) (2 / 100);
             is_featured \<leftarrow> random_choice R [True, False];
             c22 \<leftarrow> add_missing_values R (CBool is_featured) (2 / 100);
             warranty_months \<leftarrow> random_choice R [0, 6, 12, 24, 36];
             c23 \<leftarrow> add_missing_values R (CInt warranty_months) (5 / 100);
             State_Monad.return
               (Inr [c1, c2, c3, c4, c5, c6, c7, c8, c9, c10, c11, c12, c13, c14, c15, c16, c17,
                     c18, c19, c20, c21, c22, c23])
           }
       }
   }"

text \<open>
  A loop whose body can raise: the first error ends it, as the exception ends the
  script; otherwise the rows are collected in order.
\<close>

fun for_rows :: "(nat \<Rightarrow> ('g, error + cell list) state) \<Rightarrow> nat list \<Rightarrow> ('g, error + cell list list) state"
where
  "for_rows f [] = State_Monad.return (Inr [])"
| "for_rows f (i # ns) = do {
     r \<leftarrow> f i;
     case r of
       Inl e \<Rightarrow> State_Monad.return (Inl e)
     | Inr row \<Rightarrow> do {
         rs \<leftarrow> for_rows f ns;
         State_Monad.return (case rs of Inl e \<Rightarrow> Inl e | Inr rows \<Rightarrow> Inr (row # rows))
       }
   }"

definition product_file :: "'g rng \<Rightarrow> ('g, error + cell list list) state" where
  "product_file R = do {
     rs \<leftarrow> for_rows (product_row R) [1000..<26000];
     State_Monad.return (case rs of Inl e \<Rightarrow> Inl e | Inr rows \<Rightarrow> Inr (product_header # rows))
   }"

section \<open>File 4: marketing campaigns\<close>

definition channels :: "string list" where
  "channels = [''Email'', ''Social Media'', ''Google Ads'', ''TV'', ''Radio'', ''Billboard'',
     ''Influencer'', ''Direct Mail'']"

definition campaign_types :: "string list" where
  "campaign_types = [''Awareness'', ''Conversion'', ''Retention'', ''Launch'', ''Seasonal'']"

definition target_audiences :: "string list" where
  "target_audiences = [''18-24'', ''25-34'', ''35-44'', ''45-54'', ''55-64'', ''65+'']"

definition ad_formats :: "string list" where
  "ad_formats = [''Image'', ''Video'', ''Carousel'', ''Story'', ''Text'', ''Interactive'']"

definition objectives :: "string list" where
  "objectives = [''Traffic'', ''Sales'', ''Leads'', ''Engagement'', ''Brand Awareness'']"

text \<open>The vocabulary of \<^verbatim>\<open>a_b_test_variant\<close>: \<^verbatim>\<open>["A", "B", "Control", None]\<close>.\<close>

definition ab_test_variants :: "cell list" where
  "ab_test_variants = [CStr ''A'', CStr ''B'', CStr ''Control'', CNone]"

definition campaign_header :: "cell list" where
  "campaign_header = map CStr
     [''campaign_id'', ''campaign_name'', ''start_date'', ''end_date'', ''channel'',
      ''campaign_type'', ''target_audience'', ''ad_format'', ''objective'', ''budget'',
      ''spend'', ''impressions'', ''clicks'', ''conversions'', ''ctr_percent'',
      ''conversion_rate_percent'', ''cost_per_click'', ''cost_per_conversion'',
      ''revenue_generated'', ''roi_percent'', ''region'', ''is_active'', ''a_b_test_variant'',
      ''engagement_score'']"

text \<open>
  One iteration of \<^verbatim>\<open>for i in range(1, 25001)\<close>. The five ratios computed before the
  outlier test are conditional expressions whose test excludes a zero divisor, and whose
  other branch is the int \<^verbatim>\<open>0\<close>; the \<^verbatim>\<open>roi\<close> recomputed inside the outlier branch
  divides with no test.
\<close>

definition campaign_row :: "'g rng \<Rightarrow> nat \<Rightarrow> ('g, error + cell list) state" where
  "campaign_row R i = do {
     start \<leftarrow> random_date R \<lparr>year = 2020, month = 1, day = 1\<rparr> \<lparr>year = 2024, month = 11, day = 30\<rparr>;
     duration \<leftarrow> random_randint R 7 90;
     let end_date = date_add_days start duration;
     u \<leftarrow> random_uniform R 1000 100000;
     let budget = py_round u 2;
     u \<leftarrow> random_uniform R (5 / 10) (11 / 10);
     let spend = py_round (budget * u) 2;
     impressions \<leftarrow> random_randint R 1000 1000000;
     clicks \<leftarrow> random_randint R 10 (py_int (of_int impressions * (1 / 10)));
     conversions \<leftarrow> random_randint R 0 (py_int (of_int clicks * (2 / 10)));
     let ctr = (if 0 < impressions
                then CFloat (py_round (of_int clicks / of_int impressions * 100) 2) else CInt 0);
     let conv_rate = (if 0 < clicks
                then CFloat (py_round (of_int conversions / of_int clicks * 100) 2) else CInt 0);
     let cpc = (if 0 < clicks then CFloat (py_round (spend / of_int clicks) 2) else CInt 0);
     let cpa = (if 0 < conversions
                then CFloat (py_round (spend / of_int conversions) 2) else CInt 0);
     u \<leftarrow> random_uniform R 50 500;
     let revenue = py_round (of_int conversions * u) 2;
     let roi = (if 0 < spend
                then CFloat (py_round ((revenue - spend) / spend * 100) 2) else CInt 0);
     p \<leftarrow> random_random R;
     outlier \<leftarrow>
       (if p < 1 / 100 then do {
          u \<leftarrow> random_uniform R 500000 2000000;
          let budget = py_round u 2;
          u \<leftarrow> random_uniform R (8 / 10) 1;
          let spend = py_round (budget * u) 2;
          u \<leftarrow> random_uniform R 2 10;
          let revenue = py_round (spend * u) 2;
          State_Monad.return
            (case py_truediv (revenue - spend) spend of
               Inl e \<Rightarrow> Inl e
             | Inr q \<Rightarrow> Inr (budget, spend, revenue, CFloat (py_round (q * 100) 2)))
        } else State_Monad.return (Inr (budget, spend, revenue, roi)));
     case outlier of
       Inl e \<Rightarrow> State_Monad.return (Inl e)
     | Inr (budget, spend, revenue, roi) \<Rightarrow> do {
         c1 \<leftarrow> add_missing_values R (CStr (''CMP'' @ zero_pad 5 (str_int (int i)))) (1 / 1000);
         name_type \<leftarrow> random_choice R campaign_types;
         c2 \<leftarrow> add_missing_values R
           (CStr (''Campaign_'' @ name_type @ ''_'' @ str_int (int i))) (2 / 100);
         c3 \<leftarrow> add_missing_values R (CStr (strftime_ymd start)) (1 / 100);
         c4 \<leftarrow> add_missing_values R (CStr (strftime_ymd end_date)) (2 / 100);
         channel \<leftarrow> random_choice R channels;
         c5 \<leftarrow> add_missing_values R (CStr channel) (1 / 100);
         campaign_type \<leftarrow> random_choice R campaign_types;
         c6 \<leftarrow> add_missing_values R (CStr campaign_type) (1 / 100);
         target_audience \<leftarrow> random_choice R target_audiences;
         c7 \<leftarrow> add_missing_values R (CStr target_audience) (3 / 100);
         ad_format \<leftarrow> random_choice R ad_formats;
         c8 \<leftarrow> add_missing_values R (CStr ad_format) (2 / 100);
         objective \<leftarrow> random_choice R objectives;
         c9 \<leftarrow> add_missing_values R (CStr objective) (2 / 100);
         c10 \<leftarrow> add_missing_values R (CFloat budget) (3 / 100);
         c11 \<leftarrow> add_missing_values R (CFloat spend) (4 / 100);
         c12 \<leftarrow> add_missing_values R (CInt impressions) (5 / 100);
         c13 \<leftarrow> add_missing_values R (CInt clicks) (5 / 100);
         c14 \<leftarrow> add_missing_values R (CInt conversions) (6 / 100);
         c15 \<leftarrow> add_missing_values R ctr (6 / 100);
         c16 \<leftarrow> add_missing_values R conv_rate (7 / 100);
         c17 \<leftarrow> add_missing_values R cpc (6 / 100);
         c18 \<leftarrow> add_missing_values R cpa (8 / 100);
         c19 \<leftarrow> add_missing_values R (CFloat revenue) (5 / 100);
         c20 \<leftarrow> add_missing_values R roi (6 / 100);
         region \<leftarrow> random_choice R regions;
         c21 \<leftarrow> add_missing_values R (CStr region) (2 / 100);
         is_active \<leftarrow> random_choice R [True, False];
         c22 \<leftarrow> add_missing_values R (CBool is_active) (2 / 100);
         variant \<leftarrow> random_choice R ab_test_variants;
         c23 \<leftarrow> add_missing_values R variant (20 / 100);
         u \<leftarrow> random_uniform R 0 100;
         c24 \<leftarrow> add_missing_values R (CFloat (py_round u 1)) (7 / 100);
         State_Monad.return
           (Inr [c1, c2, c3, c4, c5, c6, c7, c8, c9, c10, c11, c12, c13, c14, c15, c16, c17,
                 c18, c19, c20, c21, c22, c23, c24])
       }
   }"

definition campaign_file :: "'g rng \<Rightarrow> ('g, error + cell list list) state" where
  "campaign_file R = do {
     rs \<leftarrow> for_rows (campaign_row R) [1..<25001];
     State_Monad.return (case rs of Inl e \<Rightarrow> Inl e | Inr rows \<Rightarrow> Inr (campaign_header # rows))
   }"

section \<open>The script\<close>

text \<open>
  The four files are generated one after the other from the one generator state that
  \<^verbatim>\<open>random.seed(42)\<close> sets. An error ends the script where it is raised.
\<close>

record files =
  sales_data :: "cell list list"
  customer_data :: "cell list list"
  product_data :: "cell list list"
  marketing_campaigns :: "cell list list"

definition generate :: "'g rng \<Rightarrow> ('g, error + files) state" where
  "generate R = do {
     sales \<leftarrow> sales_file R;
     customers \<leftarrow> customer_file R;
     products \<leftarrow> product_file R;
     case products of
       Inl e \<Rightarrow> State_Monad.return (Inl e)
     | Inr products \<Rightarrow> do {
         campaigns \<leftarrow> campaign_file R;
         State_Monad.return
           (case campaigns of
              Inl e \<Rightarrow> Inl e
            | Inr campaigns \<Rightarrow>
                Inr \<lparr>sales_data = sales, customer_data = customers, product_data = products,
                     marketing_campaigns = campaigns\<rparr>)
       }
   }"

definition generate_test_data :: "'g rng \<Rightarrow> error + files" where
  "generate_test_data R = fst (run_state (generate R) (rnd_seed R 42))"

section \<open>Reasoning about the generators\<close>

text \<open>
  \<open>ensures m P\<close>: whatever the state of the generator, the value that \<open>m\<close> returns
  satisfies \<open>P\<close>.
\<close>

definition ensures :: "('g, 'a) state \<Rightarrow> ('a \<Rightarrow> bool) \<Rightarrow> bool" where
  "ensures m P \<longleftrightarrow> (\<forall>g. P (fst (run_state m g)))"

text \<open>
  A generator that replays a tape: its state is the number of draws made so far, the
  \<open>n\<close>-th draw returns \<open>f n\<close> from \<^verbatim>\<open>random()\<close> and \<open>k m n\<close> from
  \<^verbatim>\<open>_randbelow(m)\<close>. Every deterministic stream of draws is such a tape.
\<close>

definition tape_rng :: "(nat \<Rightarrow> real) \<Rightarrow> (nat \<Rightarrow> nat \<Rightarrow> nat) \<Rightarrow> nat rng" where
  "tape_rng f k =
     \<lparr>rnd_seed = (\<lambda>_. 0),
      rnd_random = (\<lambda>n. (f n, Suc n)),
      rnd_randbelow = (\<lambda>m n. (k m n, Suc n))\<rparr>"

text \<open>
  A tape on which the seventh draw of a row, the outlier test of a sales row with no
  duplicate, is 0.005; every other \<^verbatim>\<open>random()\<close> is 0.5 and every \<^verbatim>\<open>_randbelow(m)\<close>
  is \<open>m - 1\<close>.
\<close>

definition sales_outlier_tape :: "nat rng" where
  "sales_outlier_tape = tape_rng (\<lambda>n. if n = 6 then 1 / 200 else 1 / 2) (\<lambda>m n. m - 1)"


text \<open>A tape on which every \<^verbatim>\<open>random()\<close> is 0.5 and every \<^verbatim>\<open>_randbelow(m)\<close> is \<open>m - 1\<close>.\<close>

definition half_tape :: "nat rng" where
  "half_tape = tape_rng (\<lambda>n. 1 / 2) (\<lambda>m n. m - 1)"

text \<open>
  A generator with one state: every \<^verbatim>\<open>random()\<close> is 0.015, below the duplicate rate
  0.02 and above the outlier rate 0.01 and the missing rate 0.001 of the identifier, and
  every \<^verbatim>\<open>_randbelow(m)\<close> is \<open>m - 1\<close>.
\<close>

definition dup_rng :: "unit rng" where
  "dup_rng =
     \<lparr>rnd_seed = (\<lambda>_. ()),
      rnd_random = (\<lambda>_. (3 / 200, ())),
      rnd_randbelow = (\<lambda>m _. (m - 1, ()))\<rparr>"

text \<open>
  The shape of a file: the header row, then \<open>n\<close> data rows, every row of \<open>w\<close> cells.
\<close>

definition csv_shape :: "cell list \<Rightarrow> nat \<Rightarrow> nat \<Rightarrow> cell list list \<Rightarrow> bool" where
  "csv_shape header n w rows \<longleftrightarrow>
     (\<exists>data. rows = header # data \<and> length data = n) \<and> (\<forall>row\<in>set rows. length row = w)"

text \<open>
  \<open>returns m g Q\<close>: run from the generator state \<open>g\<close>, \<open>m\<close> returns a value and a
  state that satisfy \<open>Q\<close>.
\<close>

definition returns :: "('g, 'a) state \<Rightarrow> 'g \<Rightarrow> ('a \<Rightarrow> 'g \<Rightarrow> bool) \<Rightarrow> bool" where
  "returns m g Q \<longleftrightarrow> Q (fst (run_state m g)) (snd (run_state m g))"

text \<open>
  A tape on which the ninth draw of a row, the outlier test of a campaign row, is 0.005;
  every other \<^verbatim>\<open>random()\<close> is 0.5 and every \<^verbatim>\<open>_randbelow(m)\<close> is \<open>m div 2\<close>.
\<close>

definition campaign_outlier_tape :: "nat rng" where
  "campaign_outlier_tape = tape_rng (\<lambda>n. if n = 8 then 1 / 200 else 1 / 2) (\<lambda>m n. m div 2)"

text \<open>
  A tape on which the second draw of a row, the test of \<^verbatim>\<open>last_purchase\<close> in a customer
  row, is 0.05; every other \<^verbatim>\<open>random()\<close> is 0.5.
\<close>

definition no_purchase_tape :: "nat rng" where
  "no_purchase_tape = tape_rng (\<lambda>n. if n = 1 then 1 / 20 else 1 / 2) (\<lambda>m n. m - 1)"

subsection \<open>The steps of a sales row\<close>

text \<open>
  The steps of a sales row, each the block of statements the script has for it: the
  sampled base fields (lines 40 to 45), the derived fields (44 and 46), the duplicate
  identifier (48 to 52), the outlier (54 to 57) and the row written with its missing
  values (59 to 84).
\<close>

definition sales_sample_base :: "'g rng \<Rightarrow> ('g, date \<times> real \<times> int \<times> int \<times> real) state" where
  "sales_sample_base R = do {
     dt \<leftarrow> random_date R \<lparr>year = 2020, month = 1, day = 1\<rparr> \<lparr>year = 2024, month = 12, day = 31\<rparr>;
     u \<leftarrow> random_uniform R 10 5000;
     quantity \<leftarrow> random_randint R 1 20;
     discount \<leftarrow> random_choice R [0, 5, 10, 15, 20, 25, 30];
     v \<leftarrow> random_uniform R 0 50;
     State_Monad.return (dt, py_round u 2, quantity, discount, py_round v 2)
   }"

definition sales_derive :: "real \<Rightarrow> int \<Rightarrow> real \<Rightarrow> real \<times> real" where
  "sales_derive sales_amount discount shipping =
     (let tax = py_round (sales_amount * (8 / 100)) 2
      in (tax, py_round (sales_amount - (sales_amount * of_int discount / 100) + tax + shipping) 2))"

definition sales_duplicate :: "'g rng \<Rightarrow> nat \<Rightarrow> ('g, int) state" where
  "sales_duplicate R i = do {
     p \<leftarrow> random_random R;
     if p < 2 / 100 \<and> 100 < i then random_randint R 1 (int i - 1)
     else State_Monad.return (int i)
   }"

definition sales_outlier ::
  "'g rng \<Rightarrow> real \<Rightarrow> int \<Rightarrow> real \<Rightarrow> real \<Rightarrow> real \<Rightarrow> ('g, real \<times> real) state" where
  "sales_outlier R sales_amount discount tax shipping total_amount = do {
     p \<leftarrow> random_random R;
     if p < 1 / 100 then do {
       u \<leftarrow> random_uniform R 10000 50000;
       let sales_amount = py_round u 2;
       State_Monad.return
         (sales_amount,
          py_round (sales_amount - (sales_amount * of_int discount / 100) + tax + shipping) 2)
     } else State_Monad.return (sales_amount, total_amount)
   }"

definition sales_writerow ::
  "'g rng \<Rightarrow> int \<Rightarrow> date \<Rightarrow> real \<Rightarrow> int \<Rightarrow> int \<Rightarrow> real \<Rightarrow> real \<Rightarrow> real \<Rightarrow> ('g, cell list) state"
where
  "sales_writerow R transaction_id dt sales_amount quantity discount tax shipping total_amount = do {
     c1 \<leftarrow> add_missing_values R (CInt transaction_id) (1 / 1000);
     c2 \<leftarrow> add_missing_values R (CStr (strftime_ymd dt)) (2 / 100);
     customer_id \<leftarrow> random_randint R 1 5000;
     c3 \<leftarrow> add_missing_values R (CInt customer_id) (3 / 100);
     product_id \<leftarrow> random_randint R 1000 9999;
     c4 \<leftarrow> add_missing_values R (CInt product_id) (2 / 100);
     category \<leftarrow> random_choice R categories;
     c5 \<leftarrow> add_missing_values R (CStr category) (1 / 100);
     region \<leftarrow> random_choice R regions;
     c6 \<leftarrow> add_missing_values R (CStr region) (1 / 100);
     c7 \<leftarrow> add_missing_values R (CFloat sales_amount) (5 / 100);
     c8 \<leftarrow> add_missing_values R (CInt quantity) (3 / 100);
     c9 \<leftarrow> add_missing_values R (CInt discount) (2 / 100);
     c10 \<leftarrow> add_missing_values R (CFloat tax) (4 / 100);
     c11 \<leftarrow> add_missing_values R (CFloat shipping) (3 / 100);
     c12 \<leftarrow> add_missing_values R (CFloat total_amount) (5 / 100);
     status \<leftarrow> random_choice R statuses;
     c13 \<leftarrow> add_missing_values R (CStr status) (2 / 100);
     payment_method \<leftarrow> random_choice R payment_methods;
     c14 \<leftarrow> add_missing_values R (CStr payment_method) (1 / 100);
     customer_segment \<leftarrow> random_choice R customer_segments;
     c15 \<leftarrow> add_missing_values R (CStr customer_segment) (3 / 100);
     delivery_days \<leftarrow> random_randint R 1 30;
     c16 \<leftarrow> add_missing_values R (CInt delivery_days) (4 / 100);
     rating \<leftarrow> random_randint R 1 5;
     c17 \<leftarrow> add_missing_values R (CInt rating) (10 / 100);
     is_repeat_customer \<leftarrow> random_choice R [True, False];
     c18 \<leftarrow> add_missing_values R (CBool is_repeat_customer) (2 / 100);
     promotion_applied \<leftarrow> random_choice R [True, False];
     c19 \<leftarrow> add_missing_values R (CBool promotion_applied) (1 / 100);
     c20 \<leftarrow> add_missing_values R (CStr (season_of (month dt))) (1 / 100);
     c21 \<leftarrow> add_missing_values R (CInt (year dt)) (1 / 100);
     c22 \<leftarrow> add_missing_values R (CInt (month dt)) (1 / 100);
     State_Monad.return
       [c1, c2, c3, c4, c5, c6, c7, c8, c9, c10, c11, c12, c13, c14, c15, c16, c17, c18, c19,
        c20, c21, c22]
   }"

text \<open>The steps in the order the script runs them: the duplicate before the outlier.\<close>

definition sales_row_code_order :: "'g rng \<Rightarrow> nat \<Rightarrow> ('g, cell list) state" where
  "sales_row_code_order R i = do {
     (dt, sales_amount, quantity, discount, shipping) \<leftarrow> sales_sample_base R;
     let (tax, total) = sales_derive sales_amount discount shipping;
     transaction_id \<leftarrow> sales_duplicate R i;
     (sales_amount, total) \<leftarrow> sales_outlier R sales_amount discount tax shipping total;
     sales_writerow R transaction_id dt sales_amount quantity discount tax shipping total
   }"

text \<open>
  The steps in the order the specification gives: base fields, derived fields, outlier,
  duplicate identifier, missing values.
\<close>

definition sales_row_spec_order :: "'g rng \<Rightarrow> nat \<Rightarrow> ('g, cell list) state" where
  "sales_row_spec_order R i = do {
     (dt, sales_amount, quantity, discount, shipping) \<leftarrow> sales_sample_base R;
     let (tax, total) = sales_derive sales_amount discount shipping;
     (sales_amount, total) \<leftarrow> sales_outlier R sales_amount discount tax shipping total;
     transaction_id \<leftarrow> sales_duplicate R i;
     sales_writerow R transaction_id dt sales_amount quantity discount tax shipping total
   }"


text \<open>
  A tape on which the sixth draw of a row is 0.005: the duplicate test of the script, the
  outlier test of the specification's order.
\<close>

definition sales_order_tape :: "nat rng" where
  "sales_order_tape = tape_rng (\<lambda>n. if n = 5 then 1 / 200 else 1 / 2) (\<lambda>m n. m - 1)"

subsection \<open>Two generators that deliver the same draws\<close>




section \<open>Lemmas\<close>

lemma ensuresD: "ensures m P \<Longrightarrow> P (fst (run_state m g))"
  by (simp add: ensures_def)

lemma ensures_bindI: "ensures m (\<lambda>x. ensures (f x) P) \<Longrightarrow> ensures (m \<bind> f) P"
  by (simp add: ensures_def split_beta)

lemma ensures_returnI: "P x \<Longrightarrow> ensures (State_Monad.return x) P"
  by (simp add: ensures_def)

lemma ensures_ifI:
  "(c \<Longrightarrow> ensures a P) \<Longrightarrow> (\<not> c \<Longrightarrow> ensures b P) \<Longrightarrow> ensures (if c then a else b) P"
  by simp

lemma ensures_letI: "ensures (f x) P \<Longrightarrow> ensures (Let x f) P"
  by simp

lemma ensures_pairI: "ensures (f a b) P \<Longrightarrow> ensures (case (a, b) of (x, y) \<Rightarrow> f x y) P"
  by simp

lemma ensures_anyI: "(\<And>x. P x) \<Longrightarrow> ensures m P"
  by (simp add: ensures_def)

lemma ensures_missingI:
  "(\<And>b. P (if b then CStr [] else v)) \<Longrightarrow> ensures (add_missing_values R v r) P"
  by (simp add: ensures_def add_missing_values_def split_beta)


subsection \<open>Running a row on a tape\<close>

lemma tape_random [simp]: "run_state (random_random (tape_rng f k)) n = (f n, Suc n)"
  by (simp add: random_random_def tape_rng_def)

lemma tape_randbelow [simp]: "run_state (random_randbelow (tape_rng f k) m) n = (k m n, Suc n)"
  by (simp add: random_randbelow_def tape_rng_def)

lemma wf_tape_rng:
  "(\<And>n. 0 \<le> f n \<and> f n < 1) \<Longrightarrow> (\<And>m n. 0 < m \<Longrightarrow> k m n < m) \<Longrightarrow> wf_rng (tape_rng f k)"
  by (simp add: wf_rng_def tape_rng_def)

subsection \<open>Rounding and the ranges of the draws\<close>

lemma round_half_even_ge: "of_int k \<le> x \<Longrightarrow> k \<le> round_half_even x"
proof -
  assume "of_int k \<le> x"
  then have "k \<le> \<lfloor>x\<rfloor>" by (simp add: le_floor_iff)
  then show ?thesis by (simp add: round_half_even_def Let_def)
qed


lemma py_round_ge: "of_int c \<le> x \<Longrightarrow> of_int c \<le> py_round x n"
proof -
  assume "of_int c \<le> x"
  then have "of_int (c * 10 ^ n) \<le> x * 10 ^ n" by simp
  then have "c * 10 ^ n \<le> round_half_even (x * 10 ^ n)" by (rule round_half_even_ge)
  then have "of_int (c * 10 ^ n) \<le> (of_int (round_half_even (x * 10 ^ n)) :: real)"
    by (simp only: of_int_le_iff)
  then show ?thesis by (simp add: py_round_def pos_le_divide_eq)
qed


lemma py_round_ge_numeral: "numeral c \<le> x \<Longrightarrow> numeral c \<le> py_round x n"
  using py_round_ge [of "numeral c" x n] by simp



lemma ensures_randomI:
  "wf_rng R \<Longrightarrow> (\<And>u. 0 \<le> u \<Longrightarrow> u < 1 \<Longrightarrow> P u) \<Longrightarrow> ensures (random_random R) P"
  by (simp add: ensures_def wf_rng_def random_random_def)

lemma ensures_randbelowI:
  "wf_rng R \<Longrightarrow> 0 < n \<Longrightarrow> (\<And>k. k < n \<Longrightarrow> P k) \<Longrightarrow> ensures (random_randbelow R n) P"
  by (simp add: ensures_def wf_rng_def random_randbelow_def)

lemma ensures_uniformI:
  assumes "wf_rng R" and "a \<le> b" and "\<And>x. a \<le> x \<Longrightarrow> x \<le> b \<Longrightarrow> P x"
  shows "ensures (random_uniform R a b) P"
  unfolding random_uniform_def
proof (intro ensures_bindI ensures_randomI [OF assms(1)] ensures_returnI assms(3))
  fix u :: real
  assume u: "0 \<le> u" "u < 1"
  from u assms(2) show "a \<le> a + (b - a) * u" by simp
  have "(b - a) * u \<le> (b - a) * 1"
    using u assms(2) by (intro mult_left_mono) simp_all
  then show "a + (b - a) * u \<le> b" by simp
qed

lemma ensures_randintI:
  assumes "wf_rng R" and "a \<le> b" and "\<And>x. a \<le> x \<Longrightarrow> x \<le> b \<Longrightarrow> P x"
  shows "ensures (random_randint R a b) P"
  unfolding random_randint_def
proof (intro ensures_bindI ensures_randbelowI [OF assms(1)] ensures_returnI assms(3))
  show "0 < nat (b - a + 1)" using assms(2) by simp
next
  fix k assume "k < nat (b - a + 1)"
  then show "a + int k \<le> b" by simp
qed simp

lemma ensures_choiceI:
  assumes "wf_rng R" and "seq \<noteq> []" and "\<And>x. x \<in> set seq \<Longrightarrow> P x"
  shows "ensures (random_choice R seq) P"
  unfolding random_choice_def
  using assms(2)
  by (intro ensures_bindI ensures_randbelowI [OF assms(1)] ensures_returnI assms(3)) simp_all

lemma ensures_sumI:
  "(\<And>e. s = Inl e \<Longrightarrow> ensures (f e) P) \<Longrightarrow> (\<And>x. s = Inr x \<Longrightarrow> ensures (g x) P) \<Longrightarrow>
   ensures (case s of Inl e \<Rightarrow> f e | Inr x \<Rightarrow> g x) P"
  by (cases s) simp_all

lemma ensures_prodI:
  "(\<And>a b. x = (a, b) \<Longrightarrow> ensures (f a b) P) \<Longrightarrow> ensures (case x of (a, b) \<Rightarrow> f a b) P"
  by (cases x) simp


lemma ensures_weaken: "ensures m P \<Longrightarrow> (\<And>x. P x \<Longrightarrow> Q x) \<Longrightarrow> ensures m Q"
  by (simp add: ensures_def)

lemma ensures_traverse_list:
  assumes "\<And>i. ensures (f i) (P i)"
  shows "ensures (traverse_list f xs)
     (\<lambda>rows. length rows = length xs \<and> (\<forall>j<length xs. P (xs ! j) (rows ! j)))"
proof (induction xs)
  case Nil
  show ?case by (simp add: ensures_returnI)
next
  case (Cons x xs)
  show ?case
    unfolding traverse_list.simps
  proof (intro ensures_bindI ensures_weaken [OF assms [of x]] ensures_weaken [OF Cons.IH]
      ensures_returnI)
    fix y ys
    assume y: "P x y"
      and ys: "length ys = length xs \<and> (\<forall>j<length xs. P (xs ! j) (ys ! j))"
    show "length (y # ys) = length (x # xs) \<and>
        (\<forall>j<length (x # xs). P ((x # xs) ! j) ((y # ys) ! j))"
      using y ys by (auto simp add: nth_Cons split: nat.splits)
  qed
qed

lemma ensures_for_rows:
  assumes "\<And>i. ensures (f i) (\<lambda>r. \<exists>row. r = Inr row \<and> P i row)"
  shows "ensures (for_rows f xs)
     (\<lambda>rs. \<exists>rows. rs = Inr rows \<and> length rows = length xs \<and>
        (\<forall>j<length xs. P (xs ! j) (rows ! j)))"
proof (induction xs)
  case Nil
  show ?case by (simp add: ensures_returnI)
next
  case (Cons x xs)
  show ?case
    unfolding for_rows.simps
    by (intro ensures_bindI ensures_weaken [OF assms [of x]])
      (auto intro!: ensures_bindI ensures_weaken [OF Cons.IH] ensures_returnI
        simp add: nth_Cons split: nat.splits)
qed


lemma wf_half_tape: "wf_rng half_tape"
  unfolding half_tape_def by (rule wf_tape_rng) simp_all

subsection \<open>Running a row from a given state\<close>

lemma tape_rng_random: "fst (rnd_random (tape_rng f k) n) = f n"
  by (simp add: tape_rng_def)

lemma returnsD: "returns m g (\<lambda>x g'. P x) \<Longrightarrow> P (fst (run_state m g))"
  by (simp add: returns_def)

lemma returns_bindI: "returns m g (\<lambda>x g'. returns (f x) g' Q) \<Longrightarrow> returns (m \<bind> f) g Q"
  by (simp add: returns_def split_beta)

lemma returns_returnI: "Q x g \<Longrightarrow> returns (State_Monad.return x) g Q"
  by (simp add: returns_def)

lemma returns_ifI:
  "(c \<Longrightarrow> returns a g Q) \<Longrightarrow> (\<not> c \<Longrightarrow> returns b g Q) \<Longrightarrow> returns (if c then a else b) g Q"
  by simp

lemma returns_letI: "returns (f x) g Q \<Longrightarrow> returns (Let x f) g Q"
  by simp

lemma returns_pairI: "returns (f a b) g Q \<Longrightarrow> returns (case (a, b) of (x, y) \<Rightarrow> f x y) g Q"
  by simp

lemma returns_prodI:
  "(\<And>a b. x = (a, b) \<Longrightarrow> returns (f a b) g Q) \<Longrightarrow> returns (case x of (a, b) \<Rightarrow> f a b) g Q"
  by (cases x) simp

lemma returns_sumI:
  "(\<And>e. s = Inl e \<Longrightarrow> returns (f e) g Q) \<Longrightarrow> (\<And>x. s = Inr x \<Longrightarrow> returns (h x) g Q) \<Longrightarrow>
   returns (case s of Inl e \<Rightarrow> f e | Inr x \<Rightarrow> h x) g Q"
  by (cases s) simp_all

lemma returns_tape_randomI:
  "Q (f n) (Suc n) \<Longrightarrow> returns (random_random (tape_rng f k)) n Q"
  by (simp add: returns_def)

lemma returns_tape_randbelowI:
  "Q (k m n) (Suc n) \<Longrightarrow> returns (random_randbelow (tape_rng f k) m) n Q"
  by (simp add: returns_def)

lemmas returns_tape = returns_bindI returns_returnI returns_ifI returns_letI returns_pairI
  returns_prodI returns_sumI returns_tape_randomI returns_tape_randbelowI

lemmas draw_defs = random_uniform_def random_randint_def random_choice_def random_date_def
  add_missing_values_def

lemma replicate_numeral_conv:
  "replicate (numeral k) x = x # replicate (pred_numeral k) x"
  by (simp add: numeral_eq_Suc)

lemmas value_defs = py_round_def round_half_even_def py_int_def py_truediv_def
  profit_margin_def date_sub_days_def date_add_days_def fromordinal_def toordinal_def
  days_before_year_def days_before_month_def DAYS_BEFORE_MONTH_def DAYS_IN_MONTH_def is_leap_def
  strftime_ymd_def zero_pad_def str_int_def str_nat_def digits.simps season_of_def
  str_lower_def char_lower_def dict_get_def Let_def replicate_numeral_conv

lemmas vocabulary_defs = categories_def regions_def statuses_def payment_methods_def
  customer_segments_def countries_def genders_def subscription_types_def account_statuses_def
  first_names_def last_names_def brands_def suppliers_def warehouses_def product_statuses_def
  colors_def sizes_def materials_def subcategories_def channels_def campaign_types_def
  target_audiences_def ad_formats_def objectives_def ab_test_variants_def

subsection \<open>Rows on the example tapes\<close>

lemma sales_row_outlier_run:
  "fst (run_state (sales_row sales_outlier_tape 7) 0) =
     [CInt 7, CStr ''2024-12-31'', CInt 5000, CInt 9999, CStr ''Garden'',
      CStr ''Central'', CFloat 30000, CInt 20, CInt 30, CFloat (1002 / 5),
      CFloat 25, CFloat (106127 / 5), CStr ''Returned'',
      CStr ''Bank Transfer'', CStr ''VIP'', CInt 30, CInt 5, CBool False,
      CBool False, CStr ''Winter'', CInt 2024, CInt 12]"
  apply (rule returnsD)
  unfolding sales_row_def sales_outlier_tape_def draw_defs
  apply (intro returns_tape)
  apply (simp_all add: value_defs vocabulary_defs)
  done

lemma sales_order_tape_code:
  "fst (run_state (sales_row sales_order_tape 7) 0) =
     [CInt 7, CStr ''2024-12-31'', CInt 5000, CInt 9999, CStr ''Garden'',
      CStr ''Central'', CFloat 2505, CInt 20, CInt 30, CFloat (1002 / 5),
      CFloat 25, CFloat (19789 / 10), CStr ''Returned'',
      CStr ''Bank Transfer'', CStr ''VIP'', CInt 30, CInt 5, CBool False,
      CBool False, CStr ''Winter'', CInt 2024, CInt 12]"
  apply (rule returnsD)
  unfolding sales_row_def sales_order_tape_def draw_defs
  apply (intro returns_tape)
  apply (simp_all add: value_defs vocabulary_defs)
  done

lemma sales_order_tape_spec:
  "fst (run_state (sales_row_spec_order sales_order_tape 7) 0) =
     [CInt 7, CStr ''2024-12-31'', CInt 5000, CInt 9999, CStr ''Garden'',
      CStr ''Central'', CFloat 30000, CInt 20, CInt 30, CFloat (1002 / 5),
      CFloat 25, CFloat (106127 / 5), CStr ''Returned'',
      CStr ''Bank Transfer'', CStr ''VIP'', CInt 30, CInt 5, CBool False,
      CBool False, CStr ''Winter'', CInt 2024, CInt 12]"
  apply (rule returnsD)
  unfolding sales_row_spec_order_def sales_sample_base_def sales_derive_def sales_duplicate_def
    sales_outlier_def sales_writerow_def sales_order_tape_def draw_defs Let_def
  apply (intro returns_tape)
  apply (simp_all add: value_defs vocabulary_defs)
  done



lemma customer_row_no_purchase_run:
  "fst (run_state (customer_row no_purchase_tape 7) 0) =
     [CInt 7, CStr ''Isabella'', CStr ''Martinez'',
      CStr ''isabella.martinez@example.com'', CStr ''+1-999-999-9999'',
      CStr ''China'', CStr ''City_100'', CInt 80, CStr ''Prefer not to say'',
      CStr ''2024-12-31'', CStr ''Enterprise'', CStr ''Pending'', CFloat 52000,
      CInt 200, CFloat 260, CStr [], CInt 10000, CBool False, CBool False,
      CBool False, CInt 50]"
  apply (rule returnsD)
  unfolding customer_row_def no_purchase_tape_def draw_defs
  apply (intro returns_tape)
  apply (simp_all add: value_defs vocabulary_defs)
  done

lemma campaign_row_outlier_run:
  "fst (run_state (campaign_row campaign_outlier_tape 7) 0) =
     Inr [CStr ''CMP00007'', CStr ''Campaign_Retention_7'',
       CStr ''2022-06-17'', CStr ''2022-08-05'', CStr ''Radio'',
       CStr ''Retention'', CStr ''45-54'', CStr ''Story'', CStr ''Leads'',
       CFloat 1250000, CFloat 1125000, CInt 500500, CInt 25030, CInt 2503,
       CFloat 5, CFloat 10, CFloat (161 / 100), CFloat (807 / 50),
       CFloat 6750000, CFloat 500, CStr ''East'', CBool False,
       CStr ''Control'', CFloat 50]"
  apply (rule returnsD)
  unfolding campaign_row_def campaign_outlier_tape_def draw_defs
  apply (intro returns_tape)
  apply (simp_all add: value_defs vocabulary_defs)
  done

lemma campaign_row_half_run:
  "fst (run_state (campaign_row half_tape 7) 0) =
     Inr [CStr ''CMP00007'', CStr ''Campaign_Seasonal_7'', CStr ''2024-11-30'',
       CStr ''2025-02-28'', CStr ''Direct Mail'', CStr ''Seasonal'',
       CStr ''65+'', CStr ''Interactive'', CStr ''Brand Awareness'',
       CFloat 50500, CFloat 40400, CInt 1000000, CInt 100000, CInt 20000,
       CFloat 10, CFloat 20, CFloat (2 / 5), CFloat (101 / 50),
       CFloat 5500000, CFloat (675693 / 50), CStr ''Central'', CBool False,
       CNone, CFloat 50]"
  apply (rule returnsD)
  unfolding campaign_row_def half_tape_def draw_defs
  apply (intro returns_tape)
  apply (simp_all add: value_defs vocabulary_defs)
  done

subsection \<open>The shape of the rows and of the files\<close>

lemma product_selling_bounds:
  assumes "5 \<le> u" and "6 / 5 \<le> v"
  shows "6 \<le> py_round (py_round u 2 * v) 2"
proof -
  have "5 \<le> py_round u 2" using assms(1) by (rule py_round_ge_numeral)
  then have "5 * (6 / 5) \<le> py_round u 2 * v"
    using assms(2) by (intro mult_mono) simp_all
  then have "6 \<le> py_round u 2 * v" by simp
  then show ?thesis by (rule py_round_ge_numeral)
qed

lemma profit_margin_Inr:
  "selling \<noteq> 0 \<Longrightarrow>
   profit_margin selling cost = Inr (py_round ((selling - cost) / selling * 100) 2)"
  by (simp add: profit_margin_def py_truediv_def)

lemma product_row_ok:
  assumes wf: "wf_rng R"
  shows "ensures (product_row R i) (\<lambda>r. \<exists>row. r = Inr row \<and> length row = 23 \<and>
     (row ! 0 = CStr [] \<or> row ! 0 = CInt (int i)) \<and> (\<forall>s. row ! 7 = CFloat s \<longrightarrow> 0 < s))"
  unfolding product_row_def
  apply (intro ensures_bindI ensures_returnI ensures_ifI ensures_letI ensures_sumI ensures_prodI
      ensures_uniformI [OF wf] ensures_missingI ensures_anyI)
     apply simp_all
  subgoal for u v e
    using product_selling_bounds [of u v]
    by (simp add: profit_margin_def py_truediv_def)
  subgoal for u v margin p w e
    using py_round_ge [of 5000 w 2]
    by (simp add: profit_margin_def py_truediv_def)
  subgoal for u v margin p w x selling
    using py_round_ge [of 5000 w 2]
    by (auto simp add: profit_margin_def py_truediv_def)
  subgoal for u v margin p x selling
    using product_selling_bounds [of u v]
    by auto
  done


lemma sales_row_ok:
  assumes wf: "wf_rng R"
  shows "ensures (sales_row R i) (\<lambda>row. length row = 22 \<and>
     (row ! 0 = CStr [] \<or> row ! 0 = CInt (int i) \<or>
      (100 < i \<and> (\<exists>j. 1 \<le> j \<and> j \<le> int i - 1 \<and> row ! 0 = CInt j))))"
  unfolding sales_row_def
  by (intro ensures_bindI ensures_returnI ensures_ifI ensures_letI ensures_pairI
      ensures_randintI [OF wf] ensures_missingI ensures_anyI) simp_all

lemma customer_row_ok:
  "ensures (customer_row R i) (\<lambda>row. length row = 21)"
  unfolding customer_row_def
  by (intro ensures_bindI ensures_returnI ensures_ifI ensures_letI ensures_anyI) simp_all

lemma campaign_outlier_spend_bounds:
  assumes "500000 \<le> w" and "4 / 5 \<le> v"
  shows "400000 \<le> py_round (py_round w 2 * v) 2"
proof -
  have "500000 \<le> py_round w 2" using assms(1) by (rule py_round_ge_numeral)
  then have "500000 * (4 / 5) \<le> py_round w 2 * v"
    using assms(2) by (intro mult_mono) simp_all
  then have "400000 \<le> py_round w 2 * v" by simp
  then show ?thesis by (rule py_round_ge_numeral)
qed

lemma campaign_row_ok:
  assumes wf: "wf_rng R"
  shows "ensures (campaign_row R i) (\<lambda>r. \<exists>row. r = Inr row \<and> length row = 24 \<and>
     (\<forall>c. row ! 12 = CInt c \<longrightarrow> 10 \<le> c))"
  unfolding campaign_row_def
  apply (intro ensures_bindI ensures_returnI ensures_ifI ensures_letI ensures_sumI ensures_prodI
      ensures_uniformI [OF wf] ensures_randintI [OF wf] ensures_missingI ensures_anyI)
                      apply (simp_all add: py_int_def le_floor_iff)
  subgoal for a b c d e f g h w v
    using campaign_outlier_spend_bounds [of w v]
    by (simp add: py_truediv_def)
  done


lemma csv_shapeI:
  assumes "length header = w" and "length data = n" and "\<forall>j<n. length (data ! j) = w"
  shows "csv_shape header n w (header # data)"
  using assms by (auto simp add: csv_shape_def in_set_conv_nth)

lemma header_lengths:
  "length sales_header = 22" "length customer_header = 21" "length product_header = 23"
  "length campaign_header = 24"
  by (simp_all add: sales_header_def customer_header_def product_header_def campaign_header_def)

lemma sales_file_ok:
  assumes wf: "wf_rng R"
  shows "ensures (sales_file R) (csv_shape sales_header 25000 22)"
  unfolding sales_file_def
  by (intro ensures_bindI ensures_returnI
      ensures_weaken [OF ensures_traverse_list [of "sales_row R" "\<lambda>i row. length row = 22"]]
      ensures_weaken [OF sales_row_ok [OF wf]] csv_shapeI header_lengths)
    (simp_all del: upt_rec_numeral)

lemma customer_file_ok:
  "ensures (customer_file R) (csv_shape customer_header 25000 21)"
  unfolding customer_file_def
  by (intro ensures_bindI ensures_returnI
      ensures_weaken [OF ensures_traverse_list [of "customer_row R" "\<lambda>i row. length row = 21"]]
      customer_row_ok csv_shapeI header_lengths)
    (simp_all del: upt_rec_numeral)

lemma product_file_ok:
  assumes wf: "wf_rng R"
  shows "ensures (product_file R) (\<lambda>rs. \<exists>rows. rs = Inr rows \<and>
      csv_shape product_header 25000 23 rows \<and>
      (\<forall>j<25000. rows ! Suc j ! 0 = CStr [] \<or> rows ! Suc j ! 0 = CInt (1000 + int j)))"
  unfolding product_file_def
proof (intro ensures_bindI ensures_returnI
    ensures_weaken [OF ensures_for_rows [of "product_row R" "\<lambda>i row. length row = 23 \<and>
       (row ! 0 = CStr [] \<or> row ! 0 = CInt (int i))"]]
    ensures_weaken [OF product_row_ok [OF wf]])
  fix rs :: "error + cell list list"
  assume "\<exists>rows. rs = Inr rows \<and> length rows = length [1000..<26000] \<and>
      (\<forall>j<length [1000..<26000]. length (rows ! j) = 23 \<and>
         (rows ! j ! 0 = CStr [] \<or> rows ! j ! 0 = CInt (int ([1000..<26000] ! j))))"
  then obtain data where rs: "rs = Inr data" and len: "length data = 25000"
    and rows: "\<forall>j<25000. length (data ! j) = 23 \<and>
       (data ! j ! 0 = CStr [] \<or> data ! j ! 0 = CInt (int ([1000..<26000] ! j)))"
    by (auto simp del: upt_rec_numeral)
  have "csv_shape product_header 25000 23 (product_header # data)"
    using len rows by (intro csv_shapeI header_lengths) (simp_all del: upt_rec_numeral)
  moreover have "\<forall>j<25000. (product_header # data) ! Suc j ! 0 = CStr [] \<or>
      (product_header # data) ! Suc j ! 0 = CInt (1000 + int j)"
    using rows by (simp del: upt_rec_numeral)
  ultimately show "\<exists>rows. (case rs of Inl e \<Rightarrow> Inl e | Inr rows \<Rightarrow> Inr (product_header # rows)) =
      Inr rows \<and> csv_shape product_header 25000 23 rows \<and>
      (\<forall>j<25000. rows ! Suc j ! 0 = CStr [] \<or> rows ! Suc j ! 0 = CInt (1000 + int j))"
    unfolding rs by simp
qed blast

lemma campaign_file_ok:
  assumes wf: "wf_rng R"
  shows "ensures (campaign_file R) (\<lambda>rs. \<exists>rows. rs = Inr rows \<and>
      csv_shape campaign_header 25000 24 rows)"
  unfolding campaign_file_def
proof (intro ensures_bindI ensures_returnI
    ensures_weaken [OF ensures_for_rows [of "campaign_row R" "\<lambda>i row. length row = 24"]]
    ensures_weaken [OF campaign_row_ok [OF wf]])
  fix rs :: "error + cell list list"
  assume "\<exists>rows. rs = Inr rows \<and> length rows = length [1..<25001] \<and>
      (\<forall>j<length [1..<25001]. length (rows ! j) = 24)"
  then obtain data where rs: "rs = Inr data" and len: "length data = 25000"
    and rows: "\<forall>j<25000. length (data ! j) = 24"
    by (auto simp del: upt_rec_numeral)
  have "csv_shape campaign_header 25000 24 (campaign_header # data)"
    using len rows by (intro csv_shapeI header_lengths) (simp_all del: upt_rec_numeral)
  then show "\<exists>rows. (case rs of Inl e \<Rightarrow> Inl e | Inr rows \<Rightarrow> Inr (campaign_header # rows)) =
      Inr rows \<and> csv_shape campaign_header 25000 24 rows"
    unfolding rs by simp
qed blast

lemma generate_ok:
  assumes wf: "wf_rng R"
  shows "ensures (generate R) (\<lambda>r. \<exists>fs. r = Inr fs \<and>
      csv_shape sales_header 25000 22 (sales_data fs) \<and>
      csv_shape customer_header 25000 21 (customer_data fs) \<and>
      csv_shape product_header 25000 23 (product_data fs) \<and>
      csv_shape campaign_header 25000 24 (marketing_campaigns fs) \<and>
      (\<forall>j<25000. product_data fs ! Suc j ! 0 = CStr [] \<or>
         product_data fs ! Suc j ! 0 = CInt (1000 + int j)))"
  unfolding generate_def
  by (intro ensures_bindI ensures_weaken [OF sales_file_ok [OF wf]]
      ensures_weaken [OF customer_file_ok] ensures_weaken [OF product_file_ok [OF wf]])
    (auto intro!: ensures_bindI ensures_weaken [OF campaign_file_ok [OF wf]] ensures_returnI)

subsection \<open>The total of a sales row\<close>




subsection \<open>The order of the steps of a sales row\<close>

text \<open>
  Claim C3, as stated, fails: with the outlier step before the duplicate step the sixth
  draw of row 7 on \<open>sales_order_tape\<close> is the outlier test and resamples
  \<open>sales_amount\<close> to 30000, while the script spends that draw on the duplicate test and
  writes the \<open>sales_amount\<close> 2505 it sampled first.
\<close>

theorem sales_row_order_counterexample:
  "fst (run_state (sales_row sales_order_tape 7) 0) ! 6 = CFloat 2505 \<and>
   fst (run_state (sales_row_spec_order sales_order_tape 7) 0) ! 6 = CFloat 30000 \<and>
   run_state (sales_row sales_order_tape 7) 0 \<noteq> run_state (sales_row_spec_order sales_order_tape 7) 0"
proof -
  have "fst (run_state (sales_row sales_order_tape 7) 0) ! 6 \<noteq>
      fst (run_state (sales_row_spec_order sales_order_tape 7) 0) ! 6"
    unfolding sales_order_tape_code sales_order_tape_spec by simp
  moreover have "fst (run_state (sales_row sales_order_tape 7) 0) ! 6 = CFloat 2505"
    unfolding sales_order_tape_code by simp
  moreover have "fst (run_state (sales_row_spec_order sales_order_tape 7) 0) ! 6 = CFloat 30000"
    unfolding sales_order_tape_spec by simp
  ultimately show ?thesis
    by auto
qed

text \<open>
  Claim C3, amended: a sales row is the steps in this order: sample the base fields,
  compute the derived fields, possibly override the identifier for duplication, possibly
  override \<open>sales_amount\<close> with an outlier and recompute \<open>total\<close>, and write the row with
  the per-field missing values last (the fields sampled in place are drawn in that last
  step).
\<close>

theorem sales_row_order: "sales_row R i = sales_row_code_order R i"
  unfolding sales_row_def sales_row_code_order_def sales_sample_base_def sales_derive_def
    sales_duplicate_def sales_outlier_def sales_writerow_def
  by (simp add: Let_def cong: if_cong)

subsection \<open>The tax of an outlier row\<close>

text \<open>
  Claim C4, at a failing input. On the tape \<open>sales_outlier_tape\<close> the outlier test of row 7
  draws 0.005 and \<open>sales_amount\<close> is resampled to 30000. The row is written with the tax
  200.4 computed from the first \<open>sales_amount\<close> 2505, not \<open>round(30000 * 0.08, 2) = 2400\<close>:
  the outlier branch recomputes \<open>total\<close> and leaves \<open>tax\<close> as it was.
\<close>

theorem sales_outlier_stale_tax:
  "(let row = fst (run_state (sales_row sales_outlier_tape 7) 0)
    in row ! 6 = CFloat 30000 \<and> row ! 9 = CFloat (1002 / 5) \<and>
       py_round (30000 * (8 / 100)) 2 = 2400 \<and> py_round (2505 * (8 / 100)) 2 = 1002 / 5)"
  unfolding sales_row_outlier_run
  by (simp add: py_round_def round_half_even_def)

subsection \<open>The ranges of the outlier fields\<close>













subsection \<open>The identifier of a duplicated sales row\<close>

lemma wf_dup_rng: "wf_rng dup_rng"
  by (simp add: wf_rng_def dup_rng_def)

lemma dup_randomI: "P (3 / 200) \<Longrightarrow> ensures (random_random dup_rng) P"
  by (simp add: ensures_def random_random_def dup_rng_def)

lemma dup_randintI: "P (a + int (nat (b - a + 1) - 1)) \<Longrightarrow> ensures (random_randint dup_rng a b) P"
  by (simp add: ensures_def random_randint_def random_randbelow_def dup_rng_def)

lemma dup_missingI:
  "P (if 3 / 200 < r then CStr [] else v) \<Longrightarrow> ensures (add_missing_values dup_rng v r) P"
  by (simp add: ensures_def add_missing_values_def random_random_def dup_rng_def)

lemma dup_rng_row_id:
  "ensures (sales_row dup_rng i) (\<lambda>row. row ! 0 = CInt (if 100 < i then int i - 1 else int i))"
  unfolding sales_row_def
  by (intro ensures_bindI ensures_returnI ensures_ifI ensures_letI ensures_pairI
      dup_randomI dup_randintI dup_missingI ensures_anyI) auto

lemma traverse_list_unit:
  "fst (run_state (traverse_list f xs) (g :: unit)) = map (\<lambda>i. fst (run_state (f i) ())) xs"
  by (induction xs) (simp_all add: split_beta)

lemma sales_file_dup_rng:
  "fst (run_state (sales_file dup_rng) ()) =
     sales_header # map (\<lambda>i. fst (run_state (sales_row dup_rng i) ())) [1..<25001]"
  by (simp add: sales_file_def split_beta traverse_list_unit del: upt_rec_numeral)

lemma dup_rng_id: "fst (run_state (sales_row dup_rng i) ()) ! 0 =
    CInt (if 100 < i then int i - 1 else int i)"
  by (rule ensuresD [OF dup_rng_row_id])

text \<open>
  Claim C6, as stated, fails. On \<open>dup_rng\<close> the duplicate branch fires on every row after
  the first 100 and \<^verbatim>\<open>randint(1, i - 1)\<close> returns \<open>i - 1\<close>: row 101 is written with the
  identifier 100, and row 102 with the identifier 101, which no earlier row was written
  with.
\<close>

theorem duplicate_id_counterexample:
  "wf_rng dup_rng \<and>
   fst (run_state (sales_duplicate dup_rng 102) ()) = 101 \<and>
   fst (run_state (sales_file dup_rng) ()) ! 102 ! 0 = CInt 101 \<and>
   CInt 101 \<notin> set (map (\<lambda>row. row ! 0) (take 102 (fst (run_state (sales_file dup_rng) ()))))"
proof -
  have 1: "fst (run_state (sales_duplicate dup_rng 102) ()) = 101"
    by (simp add: sales_duplicate_def random_randint_def random_random_def
        random_randbelow_def dup_rng_def)
  have 2: "fst (run_state (sales_file dup_rng) ()) ! 102 ! 0 = CInt 101"
    unfolding sales_file_dup_rng
    by (simp add: dup_rng_id del: upt_rec_numeral)
  have "take 102 (fst (run_state (sales_file dup_rng) ())) =
      sales_header # map (\<lambda>i. fst (run_state (sales_row dup_rng i) ())) [1..<102]"
    unfolding sales_file_dup_rng
    by (simp add: take_map del: upt_rec_numeral)
  then have 3: "CInt 101 \<notin> set (map (\<lambda>row. row ! 0)
      (take 102 (fst (run_state (sales_file dup_rng) ()))))"
    by (auto simp add: dup_rng_id sales_header_def simp del: upt_rec_numeral split: if_splits)
  from wf_dup_rng 1 2 3 show ?thesis by blast
qed

lemma randint_bounds:
  assumes "wf_rng R" and "a \<le> b"
  shows "a \<le> fst (run_state (random_randint R a b) g) \<and>
     fst (run_state (random_randint R a b) g) \<le> b"
  by (rule ensuresD [OF ensures_randintI [OF assms]]) simp

text \<open>
  Claim C6, amended. The duplicate step draws its test and, when the draw is below 0.02
  on a row after the first 100, overwrites the identifier with \<^verbatim>\<open>randint(1, i - 1)\<close>:
  the sequence number of an earlier row, whether or not that row was written with it;
  otherwise the identifier is the fresh sequential value \<open>i\<close>. The cell written is that
  identifier or the empty string.
\<close>

theorem sales_transaction_id:
  assumes "wf_rng R"
  shows "(if fst (rnd_random R g) < 2 / 100 \<and> 100 < i
          then 1 \<le> fst (run_state (sales_duplicate R i) g) \<and>
               fst (run_state (sales_duplicate R i) g) \<le> int i - 1
          else fst (run_state (sales_duplicate R i) g) = int i) \<and>
     (fst (run_state (sales_row R i) g) ! 0 = CStr [] \<or>
      fst (run_state (sales_row R i) g) ! 0 = CInt (int i) \<or>
      (100 < i \<and> (\<exists>j. 1 \<le> j \<and> j \<le> int i - 1 \<and>
         fst (run_state (sales_row R i) g) ! 0 = CInt j)))"
proof
  show "if fst (rnd_random R g) < 2 / 100 \<and> 100 < i
      then 1 \<le> fst (run_state (sales_duplicate R i) g) \<and>
           fst (run_state (sales_duplicate R i) g) \<le> int i - 1
      else fst (run_state (sales_duplicate R i) g) = int i"
    using randint_bounds [OF assms, of 1 "int i - 1" "snd (rnd_random R g)"]
    by (simp add: sales_duplicate_def random_random_def split_beta)
  show "fst (run_state (sales_row R i) g) ! 0 = CStr [] \<or>
      fst (run_state (sales_row R i) g) ! 0 = CInt (int i) \<or>
      (100 < i \<and> (\<exists>j. 1 \<le> j \<and> j \<le> int i - 1 \<and>
         fst (run_state (sales_row R i) g) ! 0 = CInt j))"
    using ensuresD [OF sales_row_ok [OF assms], of i g] by simp
qed

text \<open>Row 102 on \<open>dup_rng\<close>, where the duplicate branch fires.\<close>

theorem sales_transaction_id_witness:
  "1 \<le> fst (run_state (sales_duplicate dup_rng 102) ()) \<and>
   fst (run_state (sales_duplicate dup_rng 102) ()) \<le> 101"
proof -
  have "fst (rnd_random dup_rng ()) < 2 / 100 \<and> (100::nat) < 102"
    by (simp add: dup_rng_def)
  with sales_transaction_id [OF wf_dup_rng, of "()" 102] show ?thesis
    by (simp only: if_True) simp
qed

subsection \<open>The cost per click of an outlier campaign\<close>

text \<open>
  Claim C7, at a failing input. On the tape \<open>campaign_outlier_tape\<close> the outlier test of
  row 7 draws 0.005: \<open>spend\<close>, first 40400, is resampled to 1125000 after
  \<open>cost_per_click\<close> was computed. The row is written with 25030 clicks and the cost per
  click 1.61, which is \<open>round(40400 / 25030, 2)\<close> and not
  \<open>round(1125000 / 25030, 2) = 44.95\<close>: the outlier branch recomputes \<open>revenue\<close> and
  \<open>roi\<close> and leaves \<open>cpc\<close> (and \<open>cpa\<close>) as they were.
\<close>

theorem campaign_outlier_stale_cpc:
  "\<exists>cells. fst (run_state (campaign_row campaign_outlier_tape 7) 0) = Inr cells \<and>
     cells ! 10 = CFloat 1125000 \<and> cells ! 12 = CInt 25030 \<and> cells ! 16 = CFloat (161 / 100) \<and>
     py_round (1125000 / 25030) 2 = 4495 / 100 \<and> py_round (40400 / 25030) 2 = 161 / 100"
  unfolding campaign_row_outlier_run
  by (simp add: py_round_def round_half_even_def)

subsection \<open>Row and column counts\<close>

text \<open>
  Claim C8. With a generator whose draws are in range, the script ends without an error
  and each of the four files is its header row followed by exactly 25000 data rows, every
  row, header and data alike, of the declared width (22, 21, 23, 24), whatever cells are
  emptied; the identifier of the \<open>j\<close>-th product row is \<open>1000 + j\<close> (1000 to 25999) where
  it is not emptied.
\<close>

theorem files_shape:
  assumes "wf_rng R"
  shows "\<exists>fs. generate_test_data R = Inr fs \<and>
      csv_shape sales_header 25000 22 (sales_data fs) \<and>
      csv_shape customer_header 25000 21 (customer_data fs) \<and>
      csv_shape product_header 25000 23 (product_data fs) \<and>
      csv_shape campaign_header 25000 24 (marketing_campaigns fs) \<and>
      (\<forall>j<25000. product_data fs ! Suc j ! 0 = CStr [] \<or>
         product_data fs ! Suc j ! 0 = CInt (1000 + int j))"
  unfolding generate_test_data_def
  by (rule ensuresD [OF generate_ok [OF assms]])

theorem files_shape_witness:
  "\<exists>fs. generate_test_data half_tape = Inr fs \<and>
      length (sales_data fs) = 25001 \<and> length (customer_data fs) = 25001 \<and>
      length (product_data fs) = 25001 \<and> length (marketing_campaigns fs) = 25001 \<and>
      length (sales_data fs ! 7) = 22 \<and> length (customer_data fs ! 7) = 21 \<and>
      length (product_data fs ! 7) = 23 \<and> length (marketing_campaigns fs ! 7) = 24"
  using files_shape [OF wf_half_tape]
  by (auto simp add: csv_shape_def)

subsection \<open>The divisor of the profit margin\<close>

text \<open>
  Claim C9. With a generator whose draws are in range, a product row never raises
  ZeroDivisionError: both divisions of \<^verbatim>\<open>margin\<close> have a divisor that is not zero, and
  the \<open>selling_price\<close> written is positive. The divisor is at least 6 on the normal path
  (cost at least 5, markup at least 1.2) and at least 5000 after the outlier resample.
\<close>

theorem product_divisor_positive:
  assumes "wf_rng R"
  shows "(\<exists>row. fst (run_state (product_row R i) g) = Inr row \<and>
            (\<forall>s. row ! 7 = CFloat s \<longrightarrow> 0 < s)) \<and>
     ensures (random_uniform R 5 500) (\<lambda>u. ensures (random_uniform R (12 / 10) 3)
        (\<lambda>v. 6 \<le> py_round (py_round u 2 * v) 2)) \<and>
     ensures (random_uniform R 5000 20000) (\<lambda>u. 5000 \<le> py_round u 2)"
proof (intro conjI)
  show "\<exists>row. fst (run_state (product_row R i) g) = Inr row \<and>
      (\<forall>s. row ! 7 = CFloat s \<longrightarrow> 0 < s)"
    using ensuresD [OF product_row_ok [OF assms], of i g] by blast
  show "ensures (random_uniform R 5 500) (\<lambda>u. ensures (random_uniform R (12 / 10) 3)
      (\<lambda>v. 6 \<le> py_round (py_round u 2 * v) 2))"
    by (intro ensures_uniformI [OF assms] product_selling_bounds) simp_all
  show "ensures (random_uniform R 5000 20000) (\<lambda>u. 5000 \<le> py_round u 2)"
    by (intro ensures_uniformI [OF assms] py_round_ge_numeral) simp_all
qed

text \<open>The product row 1000 on the tape \<open>half_tape\<close>.\<close>

theorem product_divisor_positive_witness:
  "\<exists>row. fst (run_state (product_row half_tape 1000) 0) = Inr row"
  using product_divisor_positive [OF wf_half_tape, of 1000 0] by blast

subsection \<open>Empty cells that are not corrupted cells\<close>

text \<open>
  Claim C10. \<^verbatim>\<open>None\<close> is in the vocabulary of \<open>a_b_test_variant\<close> and reaches the file
  as an empty cell: campaign row 7 on \<open>half_tape\<close>, where every \<^verbatim>\<open>random()\<close> is 0.5 and
  so no corruption draw fires, has \<^verbatim>\<open>None\<close> in that column and no other empty cell. A
  customer row has the empty string in \<open>last_purchase_date\<close> when the test
  \<^verbatim>\<open>random.random() > 0.1\<close> fails: row 7 on \<open>no_purchase_tape\<close>, where that test
  draws 0.05 and every other \<^verbatim>\<open>random()\<close> is 0.5, has the empty string there and no
  other empty cell.
\<close>

theorem empty_cell_without_corruption:
  "CNone \<in> set ab_test_variants \<and> cell_empty CNone \<and>
   (\<forall>n. fst (rnd_random half_tape n) = 1 / 2) \<and>
   (\<exists>cells. fst (run_state (campaign_row half_tape 7) 0) = Inr cells \<and>
      cells ! 22 = CNone \<and> filter cell_empty cells = [CNone]) \<and>
   (\<forall>n. fst (rnd_random no_purchase_tape n) = (if n = 1 then 1 / 20 else 1 / 2)) \<and>
   fst (run_state (customer_row no_purchase_tape 7) 0) ! 15 = CStr [] \<and>
   filter cell_empty (fst (run_state (customer_row no_purchase_tape 7) 0)) = [CStr []]"
  unfolding campaign_row_half_run customer_row_no_purchase_run
  by (simp add: ab_test_variants_def cell_empty_def half_tape_def no_purchase_tape_def
      tape_rng_random)

subsection \<open>Determinism\<close>


























end
